theory Spec2Isabelle
  imports Complex_Main
begin

section \<open>The overlay constructor of rfsoc\_nrssb\<close>

text \<open>
  The repository is one Python module, \<^verbatim>\<open>rfsoc_nrssb/overlay.py\<close>, with one class
  \<^verbatim>\<open>Overlay\<close> (a subclass of \<^verbatim>\<open>pynq.Overlay\<close>) and one method, its constructor.
  The constructor reads the environment, branches on the board name, and calls code
  that lives outside the repository: the superclass constructor, the tile and block
  collections of the RF data converter driver, and the two configuration methods.

  The model is an exception-and-state embedding. The state is the object under
  construction together with the list of outside calls made so far; an exception is
  the left injection of the result. What an outside call does is not visible in the
  source, so the model takes from its environment only whether the call returns or
  raises.
\<close>

subsection \<open>Outside calls, exceptions and the object\<close>

text \<open>
  One constructor per call expression of the source that leaves the module.
  \<^item> \<open>SuperInit p kw\<close>: \<^verbatim>\<open>super().__init__(bitfile_name, **kwargs)\<close> (line 22);
  \<^item> \<open>DacTile i\<close>, \<open>AdcTile i\<close>: \<^verbatim>\<open>self.rfdc.dac_tiles[i]\<close>, \<^verbatim>\<open>self.rfdc.adc_tiles[i]\<close>;
  \<^item> \<open>DacBlock i j\<close>, \<open>AdcBlock i j\<close>: \<^verbatim>\<open>self.dac_tile.blocks[j]\<close> and
    \<^verbatim>\<open>self.adc_tile.blocks[j]\<close> when the stored tile is tile \<open>i\<close>;
  \<^item> \<open>SetCustomLmclks\<close>: \<^verbatim>\<open>clocks.set_custom_lmclks()\<close> (line 53);
  \<^item> \<open>ConfigureAdcs fs\<close>: \<^verbatim>\<open>self.configure_adcs(sample_freq=fs)\<close> (line 60);
  \<^item> \<open>ConfigureDacs\<close>: \<^verbatim>\<open>self.configure_dacs()\<close> (line 61).
  The keyword arguments are opaque to the module, hence the type parameter.
\<close>

datatype 'kw call =
    SuperInit string 'kw
  | DacTile nat
  | DacBlock nat nat
  | AdcTile nat
  | AdcBlock nat nat
  | SetCustomLmclks
  | ConfigureAdcs real
  | ConfigureDacs

text \<open>
  The exceptions of the constructor: a missing key of \<^verbatim>\<open>os.environ\<close>, the
  \<^verbatim>\<open>RuntimeError\<close> of line 49, a name that is bound nowhere, an attribute read before
  it is assigned, and an exception that an outside call raised.
\<close>

datatype 'kw error =
    KeyError string
  | RuntimeError string
  | NameError string
  | AttributeError string
  | Raised "'kw call"

text \<open>
  The object: the four attributes the constructor assigns (a tile is named by its
  index, a block by the index of its tile and its own), and the outside calls made so
  far, oldest first.
\<close>

record 'kw overlay =
  trace :: "'kw call list"
  dac_tile :: "nat option"
  dac_block :: "(nat \<times> nat) option"
  adc_tile :: "nat option"
  adc_block :: "(nat \<times> nat) option"

text \<open>
  What the constructor reads from outside: the process environment, the module's
  \<^verbatim>\<open>__file__\<close>, and for each outside call whether it returns (\<open>True\<close>) or raises.
\<close>

record 'kw world =
  environ :: "string \<rightharpoonup> string"
  module_file :: string
  returns :: "'kw call \<Rightarrow> bool"

type_synonym ('kw, 'a) action = "'kw overlay \<Rightarrow> ('kw error + 'a) \<times> 'kw overlay"

definition ret :: "'a \<Rightarrow> ('kw, 'a) action" where
  "ret x = (\<lambda>s. (Inr x, s))"

definition raise :: "'kw error \<Rightarrow> ('kw, 'a) action" where
  "raise e = (\<lambda>s. (Inl e, s))"

definition bind :: "('kw, 'a) action \<Rightarrow> ('a \<Rightarrow> ('kw, 'b) action) \<Rightarrow> ('kw, 'b) action" where
  "bind m f = (\<lambda>s. case m s of (Inl e, s') \<Rightarrow> (Inl e, s') | (Inr x, s') \<Rightarrow> f x s')"

text \<open>An outside call is recorded, then returns or raises as the world says.\<close>

definition ext :: "'kw world \<Rightarrow> 'kw call \<Rightarrow> ('kw, unit) action" where
  "ext w c = (\<lambda>s. (if returns w c then Inr () else Inl (Raised c),
                   s\<lparr>trace := trace s @ [c]\<rparr>))"

subsection \<open>The library functions the constructor uses\<close>

text \<open>
  \<^verbatim>\<open>os.path.dirname\<close> and \<^verbatim>\<open>os.path.join\<close> of the POSIX path module (the boards run
  Linux): the head of a path is everything up to its last slash, with trailing
  slashes removed unless it consists of slashes only; joining restarts at a component
  that begins with a slash and otherwise inserts a slash where none ends the path.
\<close>

definition os_path_dirname :: "string \<Rightarrow> string" where
  "os_path_dirname p =
     (let head = rev (dropWhile (\<lambda>c. c \<noteq> CHR ''/'') (rev p)) in
      if head \<noteq> [] \<and> head \<noteq> replicate (length head) (CHR ''/'')
      then rev (dropWhile (\<lambda>c. c = CHR ''/'') (rev head))
      else head)"

definition join_step :: "string \<Rightarrow> string \<Rightarrow> string" where
  "join_step path b =
     (if take 1 b = ''/'' then b
      else if path = [] \<or> last path = CHR ''/'' then path @ b
      else path @ ''/'' @ b)"

definition os_path_join :: "string \<Rightarrow> string list \<Rightarrow> string" where
  "os_path_join a p = foldl join_step a p"

text \<open>\<^verbatim>\<open>os.environ[key]\<close> raises \<^verbatim>\<open>KeyError\<close> when the variable is not set.\<close>

definition os_environ :: "'kw world \<Rightarrow> string \<Rightarrow> ('kw, string) action" where
  "os_environ w key = (case environ w key of None \<Rightarrow> raise (KeyError key) | Some v \<Rightarrow> ret v)"

text \<open>
  The names bound at the top level of the module: the imports of lines 1 to 5 and the
  class itself. A global name that is not among them (and is no builtin) raises
  \<^verbatim>\<open>NameError\<close> when it is evaluated.
\<close>

definition module_globals :: "string list" where
  "module_globals = [''Overlay'', ''os'', ''xrfdc'', ''xrfclk'']"

definition global_name :: "string \<Rightarrow> ('kw, unit) action" where
  "global_name n = (if n \<in> set module_globals then ret () else raise (NameError n))"

subsection \<open>Overlay.\_\_init\_\_\<close>

text \<open>Lines 17 to 19: the default bitfile name.\<close>

definition default_bitfile :: "'kw world \<Rightarrow> string option \<Rightarrow> string" where
  "default_bitfile w bitfile_name =
     (case bitfile_name of
        None \<Rightarrow> (let this_dir = os_path_dirname (module_file w) in
                 os_path_join this_dir [''rfsoc_nrssb'', ''bitstream'', ''rfsoc_nrssb.bit''])
      | Some b \<Rightarrow> b)"

text \<open>
  The four assignments that every branch of lines 28 to 47 makes, with the indices of
  the branch: the tile is fetched and stored, then the block is fetched from the
  stored tile.
\<close>

definition read_dac_tile :: "('kw, nat) action" where
  "read_dac_tile = (\<lambda>s. case dac_tile s of None \<Rightarrow> (Inl (AttributeError ''dac_tile''), s)
                                          | Some t \<Rightarrow> (Inr t, s))"

definition read_adc_tile :: "('kw, nat) action" where
  "read_adc_tile = (\<lambda>s. case adc_tile s of None \<Rightarrow> (Inl (AttributeError ''adc_tile''), s)
                                          | Some t \<Rightarrow> (Inr t, s))"

definition converters :: "'kw world \<Rightarrow> nat \<Rightarrow> nat \<Rightarrow> nat \<Rightarrow> nat \<Rightarrow> ('kw, unit) action" where
  "converters w dti dbi ati abi =
     bind (ext w (DacTile dti)) (\<lambda>_.
     bind (\<lambda>s. (Inr (), s\<lparr>dac_tile := Some dti\<rparr>)) (\<lambda>_.
     bind read_dac_tile (\<lambda>t.
     bind (ext w (DacBlock t dbi)) (\<lambda>_.
     bind (\<lambda>s. (Inr (), s\<lparr>dac_block := Some (t, dbi)\<rparr>)) (\<lambda>_.
     bind (ext w (AdcTile ati)) (\<lambda>_.
     bind (\<lambda>s. (Inr (), s\<lparr>adc_tile := Some ati\<rparr>)) (\<lambda>_.
     bind read_adc_tile (\<lambda>t'.
     bind (ext w (AdcBlock t' abi)) (\<lambda>_.
          (\<lambda>s. (Inr (), s\<lparr>adc_block := Some (t', abi)\<rparr>)))))))))))"

text \<open>Lines 28 to 49: the branch on the board name.\<close>

definition extract_names :: "'kw world \<Rightarrow> string \<Rightarrow> ('kw, unit) action" where
  "extract_names w board =
     (if board = ''RFSoC4x2'' then converters w 2 0 2 1
      else if board \<in> set [''ZCU208'', ''ZCU216''] then converters w 2 0 1 0
      else if board = ''RFSoC2x2'' then converters w 1 0 2 0
      else if board = ''ZCU111'' then converters w 1 2 0 0
      else raise (RuntimeError ''Unknown error occurred.''))"

text \<open>
  Lines 52 and 53: \<^verbatim>\<open>clocks.set_custom_lmclks()\<close> evaluates the global name
  \<^verbatim>\<open>clocks\<close> first, then calls.
\<close>

definition start_lmx_clock :: "'kw world \<Rightarrow> bool \<Rightarrow> ('kw, unit) action" where
  "start_lmx_clock w init_rf_clks =
     (if init_rf_clks then bind (global_name ''clocks'') (\<lambda>_. ext w SetCustomLmclks)
      else ret ())"

text \<open>Lines 55 to 58: the sample frequency.\<close>

definition sample_freq :: "string \<Rightarrow> real" where
  "sample_freq board = (if board = ''ZCU216'' then 1920.00 else 3840.00)"

text \<open>The constructor body, lines 17 to 61, on the object \<open>self\<close>.\<close>

definition Overlay_init ::
  "'kw world \<Rightarrow> string option \<Rightarrow> bool \<Rightarrow> 'kw \<Rightarrow> ('kw, unit) action" where
  "Overlay_init w bitfile_name init_rf_clks kwargs =
     bind (ext w (SuperInit (default_bitfile w bitfile_name) kwargs)) (\<lambda>_.
     bind (os_environ w ''BOARD'') (\<lambda>board.
     bind (extract_names w board) (\<lambda>_.
     bind (start_lmx_clock w init_rf_clks) (\<lambda>_.
     bind (ext w (ConfigureAdcs (sample_freq board))) (\<lambda>_.
          ext w ConfigureDacs)))))"

text \<open>A fresh object, and the call \<^verbatim>\<open>Overlay(bitfile_name, init_rf_clks, **kwargs)\<close>.\<close>

definition fresh :: "'kw overlay" where
  "fresh = \<lparr>trace = [], dac_tile = None, dac_block = None, adc_tile = None, adc_block = None\<rparr>"

definition Overlay :: "'kw world \<Rightarrow> string option \<Rightarrow> bool \<Rightarrow> 'kw \<Rightarrow> ('kw error + unit) \<times> 'kw overlay" where
  "Overlay w bitfile_name init_rf_clks kwargs = Overlay_init w bitfile_name init_rf_clks kwargs fresh"

subsection \<open>The documented mapping table\<close>

text \<open>
  The specification's table, written from its words and kept apart from the code: the
  five recognized board identifiers, and for each the DAC tile and block index and the
  ADC tile and block index.
\<close>

definition known_boards :: "string list" where
  "known_boards = [''RFSoC4x2'', ''ZCU208'', ''ZCU216'', ''RFSoC2x2'', ''ZCU111'']"

definition documented_indices :: "string \<Rightarrow> (nat \<times> nat \<times> nat \<times> nat) option" where
  "documented_indices board =
     map_of [(''RFSoC4x2'', (2, 0, 2, 1)),
             (''ZCU208'',   (2, 0, 1, 0)),
             (''ZCU216'',   (2, 0, 1, 0)),
             (''RFSoC2x2'', (1, 0, 2, 0)),
             (''ZCU111'',   (1, 2, 0, 0))] board"

definition documented_freq :: "string \<Rightarrow> real" where
  "documented_freq board = (if board = ''ZCU216'' then 1920 else 3840)"

text \<open>Classifiers of outside calls, for reading a trace.\<close>

fun is_lookup :: "'kw call \<Rightarrow> bool" where
  "is_lookup (DacTile i) = True"
| "is_lookup (DacBlock i j) = True"
| "is_lookup (AdcTile i) = True"
| "is_lookup (AdcBlock i j) = True"
| "is_lookup c = False"

fun is_configure :: "'kw call \<Rightarrow> bool" where
  "is_configure (ConfigureAdcs f) = True"
| "is_configure ConfigureDacs = True"
| "is_configure c = False"

fun is_super_init :: "'kw call \<Rightarrow> bool" where
  "is_super_init (SuperInit p kw) = True"
| "is_super_init c = False"

subsection \<open>Concrete worlds\<close>

text \<open>
  A board on which every outside call returns: \<^verbatim>\<open>BOARD\<close> is set to the given name
  and the module is installed under the Python path of a PYNQ image.
\<close>

definition board_world :: "string \<Rightarrow> unit world" where
  "board_world b =
     \<lparr>environ = [''BOARD'' \<mapsto> b],
      module_file = ''/usr/local/share/pynq-venv/lib/python3.10/site-packages/rfsoc_nrssb/overlay.py'',
      returns = (\<lambda>c. True)\<rparr>"

text \<open>The same installation with \<^verbatim>\<open>BOARD\<close> not set.\<close>

definition unset_world :: "unit world" where
  "unset_world =
     \<lparr>environ = Map.empty,
      module_file = ''/usr/local/share/pynq-venv/lib/python3.10/site-packages/rfsoc_nrssb/overlay.py'',
      returns = (\<lambda>c. True)\<rparr>"

text \<open>
  A second installation, run from the source tree, on which the DAC configuration
  raises.
\<close>

definition source_tree_world :: "string \<Rightarrow> unit world" where
  "source_tree_world b =
     \<lparr>environ = [''BOARD'' \<mapsto> b, ''HOME'' \<mapsto> ''/home/xilinx''],
      module_file = ''rfsoc_nrssb/overlay.py'',
      returns = (\<lambda>c. c \<noteq> ConfigureDacs)\<rparr>"

section \<open>Properties of the constructor\<close>

subsection \<open>Unfolding a run\<close>

text \<open>The definitions that make up a run of the constructor, for the simplifier.\<close>

lemmas run_defs = ret_def raise_def bind_def ext_def os_environ_def global_name_def module_globals_def
  converters_def read_dac_tile_def read_adc_tile_def extract_names_def start_lmx_clock_def sample_freq_def
  Overlay_init_def fresh_def Overlay_def

text \<open>The concrete worlds, field by field.\<close>

lemma board_world_simps:
  "environ (board_world b) k = (if k = ''BOARD'' then Some b else None)"
  "returns (board_world b) c = True"
  by (simp_all add: board_world_def)

lemma bitfile_board_world:
  "default_bitfile (board_world b) None =
     ''/usr/local/share/pynq-venv/lib/python3.10/site-packages/rfsoc_nrssb/rfsoc_nrssb/bitstream/rfsoc_nrssb.bit''"
  by (simp add: default_bitfile_def board_world_def os_path_dirname_def os_path_join_def join_step_def)

lemma source_tree_world_simps:
  "environ (source_tree_world b) ''BOARD'' = Some b"
  "returns (source_tree_world b) c = (c \<noteq> ConfigureDacs)"
  by (simp_all add: source_tree_world_def)

lemma unset_world_simps:
  "environ unset_world k = None"
  "returns unset_world c = True"
  by (simp_all add: unset_world_def)

lemma bitfile_unset_world:
  "default_bitfile unset_world None =
     ''/usr/local/share/pynq-venv/lib/python3.10/site-packages/rfsoc_nrssb/rfsoc_nrssb/bitstream/rfsoc_nrssb.bit''"
  by (simp add: default_bitfile_def unset_world_def os_path_dirname_def os_path_join_def join_step_def)

text \<open>The documented table, read as a case distinction.\<close>

lemma known_boards_iff:
  "board \<in> set known_boards \<longleftrightarrow> documented_indices board \<noteq> None"
  by (simp add: known_boards_def documented_indices_def)

lemma documented_cases:
  assumes "documented_indices board = Some (dti, dbi, ati, abi)"
  shows "(board = ''RFSoC4x2'' \<and> (dti, dbi, ati, abi) = (2, 0, 2, 1))
       \<or> (board = ''ZCU208'' \<and> (dti, dbi, ati, abi) = (2, 0, 1, 0))
       \<or> (board = ''ZCU216'' \<and> (dti, dbi, ati, abi) = (2, 0, 1, 0))
       \<or> (board = ''RFSoC2x2'' \<and> (dti, dbi, ati, abi) = (1, 0, 2, 0))
       \<or> (board = ''ZCU111'' \<and> (dti, dbi, ati, abi) = (1, 2, 0, 0))"
  using assms by (simp add: documented_indices_def split: if_splits)

text \<open>
  When the four lookups return, a branch stores the four references and records the
  four lookups; and on a documented board the branch taken is the documented one.
\<close>

lemma converters_returns:
  assumes "returns w (DacTile dti)" "returns w (DacBlock dti dbi)"
          "returns w (AdcTile ati)" "returns w (AdcBlock ati abi)"
  shows "converters w dti dbi ati abi s =
           (Inr (), s\<lparr>trace := trace s @ [DacTile dti, DacBlock dti dbi, AdcTile ati, AdcBlock ati abi],
                      dac_tile := Some dti, dac_block := Some (dti, dbi),
                      adc_tile := Some ati, adc_block := Some (ati, abi)\<rparr>)"
  using assms by (simp add: converters_def bind_def ext_def read_dac_tile_def read_adc_tile_def)

lemma extract_names_documented:
  assumes "documented_indices board = Some (dti, dbi, ati, abi)"
  shows "extract_names w board = converters w dti dbi ati abi"
  using documented_cases [OF assms] by (auto simp add: extract_names_def)

text \<open>
  The three kinds of run: \<^verbatim>\<open>BOARD\<close> not set, set to a name outside the table, set to a
  name of the table.
\<close>

lemma run_without_board:
  assumes "environ w ''BOARD'' = None"
  shows "Overlay w bn clk kw =
           (if returns w (SuperInit (default_bitfile w bn) kw) then Inl (KeyError ''BOARD'')
            else Inl (Raised (SuperInit (default_bitfile w bn) kw)),
            fresh\<lparr>trace := [SuperInit (default_bitfile w bn) kw]\<rparr>)"
  using assms by (simp add: run_defs)

lemma run_unknown_board:
  assumes "environ w ''BOARD'' = Some board" and "documented_indices board = None"
  shows "Overlay w bn clk kw =
           (if returns w (SuperInit (default_bitfile w bn) kw)
            then Inl (RuntimeError ''Unknown error occurred.'')
            else Inl (Raised (SuperInit (default_bitfile w bn) kw)),
            fresh\<lparr>trace := [SuperInit (default_bitfile w bn) kw]\<rparr>)"
proof -
  from assms(2) have "board \<notin> set known_boards" by (simp add: known_boards_iff)
  with assms(1) show ?thesis by (simp add: run_defs known_boards_def)
qed

lemma run_known_board:
  assumes "environ w ''BOARD'' = Some board"
      and "documented_indices board = Some (dti, dbi, ati, abi)"
  shows "dac_tile (snd (Overlay w bn clk kw)) \<in> {None, Some dti}"
    and "dac_block (snd (Overlay w bn clk kw)) \<in> {None, Some (dti, dbi)}"
    and "adc_tile (snd (Overlay w bn clk kw)) \<in> {None, Some ati}"
    and "adc_block (snd (Overlay w bn clk kw)) \<in> {None, Some (ati, abi)}"
  using assms(1)
  by (simp_all add: Overlay_def Overlay_init_def bind_def ext_def os_environ_def ret_def raise_def
        extract_names_documented [OF assms(2)] converters_def read_dac_tile_def read_adc_tile_def
        start_lmx_clock_def global_name_def module_globals_def fresh_def)

lemma run_known_board_trace:
  assumes "environ w ''BOARD'' = Some board"
      and "documented_indices board = Some (dti, dbi, ati, abi)"
  shows "\<exists>rest. trace (snd (Overlay w bn clk kw)) = SuperInit (default_bitfile w bn) kw # rest
          \<and> filter is_super_init rest = []
          \<and> (\<forall>f. ConfigureAdcs f \<in> set rest \<longrightarrow> f = sample_freq board)"
  using assms(1)
  by (simp add: Overlay_def Overlay_init_def bind_def ext_def os_environ_def ret_def raise_def
        extract_names_documented [OF assms(2)] converters_def read_dac_tile_def read_adc_tile_def
        start_lmx_clock_def global_name_def module_globals_def fresh_def)

lemma join_default:
  "os_path_join d [''rfsoc_nrssb'', ''bitstream'', ''rfsoc_nrssb.bit''] =
     (if d = [] \<or> last d = CHR ''/'' then d else d @ ''/'') @ ''rfsoc_nrssb/bitstream/rfsoc_nrssb.bit''"
  by (simp add: os_path_join_def join_step_def)

lemma trace_starts_with_super_init:
  "\<exists>rest. trace (snd (Overlay w bn clk kw)) = SuperInit (default_bitfile w bn) kw # rest
          \<and> filter is_super_init rest = []"
proof (cases "environ w ''BOARD''")
  case None
  then show ?thesis by (simp add: run_without_board)
next
  case (Some board)
  show ?thesis
  proof (cases "documented_indices board")
    case None
    with Some show ?thesis by (simp add: run_unknown_board)
  next
    case doc: (Some sel)
    obtain dti dbi ati abi where "sel = (dti, dbi, ati, abi)" by (cases sel) auto
    with doc have "documented_indices board = Some (dti, dbi, ati, abi)" by simp
    from run_known_board_trace [OF Some this, of bn clk kw] show ?thesis by blast
  qed
qed

text \<open>
  With \<^verbatim>\<open>init_rf_clks=True\<close> the constructor never returns normally, whatever the board
  and whatever the outside calls do: either an earlier step raises, or line 53 raises
  \<^verbatim>\<open>NameError\<close>.
\<close>

lemma init_rf_clks_True_raises: "fst (Overlay w bn True kw) \<noteq> Inr ()"
  by (auto simp add: run_defs split: option.splits if_splits)

text \<open>
  With \<^verbatim>\<open>init_rf_clks=False\<close>, on a board of the table and with every outside call
  returning, the constructor returns normally after the superclass constructor, the
  four lookups, \<^verbatim>\<open>configure_adcs\<close> and \<^verbatim>\<open>configure_dacs\<close>, in this order.
\<close>

lemma construction_without_clock_init:
  assumes "environ w ''BOARD'' = Some board"
      and "documented_indices board = Some (dti, dbi, ati, abi)"
      and "\<And>c. returns w c"
  shows "Overlay w bn False kw =
           (Inr (),
            \<lparr>trace = [SuperInit (default_bitfile w bn) kw,
                       DacTile dti, DacBlock dti dbi, AdcTile ati, AdcBlock ati abi,
                       ConfigureAdcs (sample_freq board), ConfigureDacs],
              dac_tile = Some dti, dac_block = Some (dti, dbi),
              adc_tile = Some ati, adc_block = Some (ati, abi)\<rparr>)"
  using assms(1,3)
  by (simp add: Overlay_def Overlay_init_def bind_def ext_def os_environ_def ret_def raise_def
        extract_names_documented [OF assms(2)] converters_returns
        start_lmx_clock_def fresh_def)

subsection \<open>The claims\<close>

text \<open>
  Claim C1: for each of the five known boards, constructing the overlay with default
  arguments (so \<^verbatim>\<open>init_rf_clks=True\<close>) completes without an exception. The code does
  not: on RFSoC4x2, with every outside call returning, the four references are
  selected as documented and then line 53 raises \<^verbatim>\<open>NameError\<close>, because the module
  binds no name \<^verbatim>\<open>clocks\<close>.
\<close>

theorem default_construction_raises_NameError:
  "Overlay (board_world ''RFSoC4x2'') None True () =
     (Inl (NameError ''clocks''),
      \<lparr>trace = [SuperInit ''/usr/local/share/pynq-venv/lib/python3.10/site-packages/rfsoc_nrssb/rfsoc_nrssb/bitstream/rfsoc_nrssb.bit'' (),
                 DacTile 2, DacBlock 2 0, AdcTile 2, AdcBlock 2 1],
        dac_tile = Some 2, dac_block = Some (2, 0), adc_tile = Some 2, adc_block = Some (2, 1)\<rparr>)"
  by (simp add: run_defs bitfile_board_world board_world_simps)

text \<open>
  Claim C2: on every recognized board the constructor selects exactly the tile and
  block indices of the documented table. Whenever the superclass constructor and the
  four lookups return, the four attributes hold the documented references and the
  lookups made are the four documented ones, in order; this holds for either value of
  \<^verbatim>\<open>init_rf_clks\<close>.
\<close>

theorem known_board_selects_documented_indices:
  assumes "environ w ''BOARD'' = Some board"
      and "documented_indices board = Some (dti, dbi, ati, abi)"
      and "returns w (SuperInit (default_bitfile w bn) kw)"
      and "returns w (DacTile dti)" "returns w (DacBlock dti dbi)"
      and "returns w (AdcTile ati)" "returns w (AdcBlock ati abi)"
  shows "dac_tile (snd (Overlay w bn clk kw)) = Some dti
       \<and> dac_block (snd (Overlay w bn clk kw)) = Some (dti, dbi)
       \<and> adc_tile (snd (Overlay w bn clk kw)) = Some ati
       \<and> adc_block (snd (Overlay w bn clk kw)) = Some (ati, abi)
       \<and> filter is_lookup (trace (snd (Overlay w bn clk kw)))
           = [DacTile dti, DacBlock dti dbi, AdcTile ati, AdcBlock ati abi]"
  using assms(1,3)
  by (simp add: Overlay_def Overlay_init_def bind_def ext_def os_environ_def ret_def raise_def
      extract_names_documented [OF assms(2)] converters_returns [OF assms(4-7)]
      start_lmx_clock_def global_name_def module_globals_def fresh_def)

theorem known_board_selects_documented_indices_witness:
  "environ (board_world ''ZCU111'') ''BOARD'' = Some ''ZCU111''
   \<and> documented_indices ''ZCU111'' = Some (1, 2, 0, 0)
   \<and> returns (board_world ''ZCU111'') (SuperInit (default_bitfile (board_world ''ZCU111'') None) ())
   \<and> returns (board_world ''ZCU111'') (DacTile 1) \<and> returns (board_world ''ZCU111'') (DacBlock 1 2)
   \<and> returns (board_world ''ZCU111'') (AdcTile 0) \<and> returns (board_world ''ZCU111'') (AdcBlock 0 0)
   \<and> dac_tile (snd (Overlay (board_world ''ZCU111'') None True ())) = Some 1
   \<and> dac_block (snd (Overlay (board_world ''ZCU111'') None True ())) = Some (1, 2)
   \<and> adc_tile (snd (Overlay (board_world ''ZCU111'') None True ())) = Some 0
   \<and> adc_block (snd (Overlay (board_world ''ZCU111'') None True ())) = Some (0, 0)
   \<and> filter is_lookup (trace (snd (Overlay (board_world ''ZCU111'') None True ())))
       = [DacTile 1, DacBlock 1 2, AdcTile 0, AdcBlock 0 0]"
proof -
  have env: "environ (board_world ''ZCU111'') ''BOARD'' = Some ''ZCU111''"
    by (simp add: board_world_simps)
  have doc: "documented_indices ''ZCU111'' = Some (1, 2, 0, 0)"
    by (simp add: documented_indices_def)
  have r: "returns (board_world ''ZCU111'') c" for c
    by (simp add: board_world_simps)
  from known_board_selects_documented_indices [where bn = None and kw = "()" and clk = True, OF env doc r r r r r] env doc r
  show ?thesis by simp
qed

text \<open>
  Claim C3: the sample frequency passed to \<^verbatim>\<open>configure_adcs\<close> is 1920.00 on ZCU216
  and 3840.00 on each of the four other recognized boards. Every call of
  \<^verbatim>\<open>configure_adcs\<close> that a construction on a recognized board makes carries the
  documented frequency; and the call is made when \<^verbatim>\<open>init_rf_clks\<close> is false and the
  superclass constructor and the lookups return.
\<close>

theorem configure_adcs_sample_freq:
  assumes "environ w ''BOARD'' = Some board" and "board \<in> set known_boards"
  shows "(\<forall>f. ConfigureAdcs f \<in> set (trace (snd (Overlay w bn clk kw))) \<longrightarrow> f = documented_freq board)
       \<and> (\<not> clk \<and> returns w (SuperInit (default_bitfile w bn) kw) \<and> (\<forall>c. is_lookup c \<longrightarrow> returns w c)
            \<longrightarrow> ConfigureAdcs (documented_freq board) \<in> set (trace (snd (Overlay w bn clk kw))))"
proof -
  from assms(2) obtain dti dbi ati abi where doc: "documented_indices board = Some (dti, dbi, ati, abi)"
    by (auto simp add: known_boards_iff)
  have fs: "sample_freq board = documented_freq board"
    by (simp add: sample_freq_def documented_freq_def)
  have a: "\<forall>f. ConfigureAdcs f \<in> set (trace (snd (Overlay w bn clk kw))) \<longrightarrow> f = documented_freq board"
    using assms(1)
    by (auto simp add: Overlay_def Overlay_init_def bind_def ext_def os_environ_def ret_def raise_def
        extract_names_documented [OF doc] converters_def read_dac_tile_def read_adc_tile_def fs
        start_lmx_clock_def global_name_def module_globals_def fresh_def split: if_splits)
  have b: "ConfigureAdcs (documented_freq board) \<in> set (trace (snd (Overlay w bn clk kw)))"
    if "\<not> clk" "returns w (SuperInit (default_bitfile w bn) kw)" "\<forall>c. is_lookup c \<longrightarrow> returns w c"
  proof -
    have r: "returns w (DacTile dti)" "returns w (DacBlock dti dbi)"
            "returns w (AdcTile ati)" "returns w (AdcBlock ati abi)"
      using that(3) by simp_all
    show ?thesis using assms(1) that(1,2)
      by (simp add: Overlay_def Overlay_init_def bind_def ext_def os_environ_def ret_def raise_def
          extract_names_documented [OF doc] converters_returns [OF r] fs
          start_lmx_clock_def fresh_def)
  qed
  from a b show ?thesis by blast
qed

theorem configure_adcs_sample_freq_witness:
  "environ (board_world ''ZCU216'') ''BOARD'' = Some ''ZCU216''
   \<and> ''ZCU216'' \<in> set known_boards
   \<and> ConfigureAdcs 1920 \<in> set (trace (snd (Overlay (board_world ''ZCU216'') None False ())))"
proof -
  have env: "environ (board_world ''ZCU216'') ''BOARD'' = Some ''ZCU216''"
    by (simp add: board_world_simps)
  have known: "''ZCU216'' \<in> set known_boards"
    by (simp add: known_boards_def)
  from configure_adcs_sample_freq [OF env known, where bn = None and clk = False and kw = "()"] env known
  show ?thesis by (simp add: documented_freq_def board_world_simps)
qed

text \<open>
  Claim C4, as stated: on a board outside the five, construction fails before any
  hardware call is made. The superclass constructor, which loads the bitstream, has
  been called by then: on the unknown board ZCU102 the trace of the failed
  construction is not empty.
\<close>

theorem unknown_board_super_init_called:
  "''ZCU102'' \<notin> set known_boards
   \<and> fst (Overlay (board_world ''ZCU102'') None True ()) = Inl (RuntimeError ''Unknown error occurred.'')
   \<and> trace (snd (Overlay (board_world ''ZCU102'') None True ())) =
       [SuperInit ''/usr/local/share/pynq-venv/lib/python3.10/site-packages/rfsoc_nrssb/rfsoc_nrssb/bitstream/rfsoc_nrssb.bit'' ()]
   \<and> trace (snd (Overlay (board_world ''ZCU102'') None True ())) \<noteq> []"
  by (simp add: run_defs bitfile_board_world board_world_simps known_boards_def)

text \<open>
  Claim C4, amended: when \<^verbatim>\<open>BOARD\<close> holds a name outside the five, construction fails;
  the only outside call made is the superclass constructor, no tile or block is looked
  up, no attribute is assigned, and neither the clock initialisation nor a
  configuration method is called. The failure is the \<^verbatim>\<open>RuntimeError\<close> of line 49 when
  the superclass constructor returned, and the superclass constructor's own exception
  otherwise.
\<close>

theorem unknown_board_fails_after_super_init:
  assumes "environ w ''BOARD'' = Some board" and "board \<notin> set known_boards"
  shows "fst (Overlay w bn clk kw) =
           (if returns w (SuperInit (default_bitfile w bn) kw)
            then Inl (RuntimeError ''Unknown error occurred.'')
            else Inl (Raised (SuperInit (default_bitfile w bn) kw)))
       \<and> snd (Overlay w bn clk kw) = fresh\<lparr>trace := [SuperInit (default_bitfile w bn) kw]\<rparr>"
  using assms by (simp add: run_defs known_boards_def)

theorem unknown_board_fails_after_super_init_witness:
  "environ (board_world ''ZCU102'') ''BOARD'' = Some ''ZCU102''
   \<and> ''ZCU102'' \<notin> set known_boards
   \<and> fst (Overlay (board_world ''ZCU102'') None True ()) = Inl (RuntimeError ''Unknown error occurred.'')
   \<and> snd (Overlay (board_world ''ZCU102'') None True ()) =
       \<lparr>trace = [SuperInit ''/usr/local/share/pynq-venv/lib/python3.10/site-packages/rfsoc_nrssb/rfsoc_nrssb/bitstream/rfsoc_nrssb.bit'' ()],
         dac_tile = None, dac_block = None, adc_tile = None, adc_block = None\<rparr>"
proof -
  have env: "environ (board_world ''ZCU102'') ''BOARD'' = Some ''ZCU102''"
    by (simp add: board_world_simps)
  have unknown: "''ZCU102'' \<notin> set known_boards"
    by (simp add: known_boards_def)
  from unknown_board_fails_after_super_init [OF env unknown, where bn = None and clk = True and kw = "()"] env unknown
  show ?thesis by (simp add: bitfile_board_world board_world_simps fresh_def)
qed

text \<open>
  Claim C5: construction raises the unrecognized-board error if and only if the value
  of \<^verbatim>\<open>BOARD\<close> is not one of the five recognized identifiers, and when it raises,
  neither \<^verbatim>\<open>configure_adcs\<close> nor \<^verbatim>\<open>configure_dacs\<close> has been called. The branch on
  the board is reached when the superclass constructor has returned.
\<close>

theorem unknown_board_error_iff:
  assumes "environ w ''BOARD'' = Some board"
      and "returns w (SuperInit (default_bitfile w bn) kw)"
  shows "(fst (Overlay w bn clk kw) = Inl (RuntimeError ''Unknown error occurred.'')
            \<longleftrightarrow> board \<notin> set known_boards)
       \<and> (fst (Overlay w bn clk kw) = Inl (RuntimeError ''Unknown error occurred.'')
            \<longrightarrow> filter is_configure (trace (snd (Overlay w bn clk kw))) = [])"
proof (cases "board \<in> set known_boards")
  case True
  then obtain dti dbi ati abi where doc: "documented_indices board = Some (dti, dbi, ati, abi)"
    by (auto simp add: known_boards_iff)
  have "fst (Overlay w bn clk kw) \<noteq> Inl (RuntimeError ''Unknown error occurred.'')"
    using assms
    by (auto simp add: Overlay_def Overlay_init_def bind_def ext_def os_environ_def ret_def raise_def
        extract_names_documented [OF doc] converters_def read_dac_tile_def read_adc_tile_def
        start_lmx_clock_def global_name_def module_globals_def fresh_def split: if_splits)
  with True show ?thesis by simp
next
  case False
  with assms show ?thesis by (simp add: run_defs known_boards_def)
qed

theorem unknown_board_error_iff_witness:
  "environ (board_world ''zcu111'') ''BOARD'' = Some ''zcu111''
   \<and> returns (board_world ''zcu111'') (SuperInit (default_bitfile (board_world ''zcu111'') None) ())
   \<and> ''zcu111'' \<notin> set known_boards
   \<and> fst (Overlay (board_world ''zcu111'') None False ()) = Inl (RuntimeError ''Unknown error occurred.'')
   \<and> filter is_configure (trace (snd (Overlay (board_world ''zcu111'') None False ()))) = []"
proof -
  have env: "environ (board_world ''zcu111'') ''BOARD'' = Some ''zcu111''"
    by (simp add: board_world_simps)
  have r: "returns (board_world ''zcu111'') (SuperInit (default_bitfile (board_world ''zcu111'') None) ())"
    by (simp add: board_world_simps)
  have unknown: "''zcu111'' \<notin> set known_boards"
    by (simp add: known_boards_def)
  from unknown_board_error_iff [OF env r, where clk = False] env r unknown
  show ?thesis by simp
qed

text \<open>
  Claim C6: on a recognized board exactly two configuration methods are called after
  the board lookup, \<^verbatim>\<open>configure_adcs\<close> with the sample frequency and then
  \<^verbatim>\<open>configure_dacs\<close>. With default arguments the code calls neither: on RFSoC2x2,
  with every outside call returning, line 53 raises \<^verbatim>\<open>NameError\<close> before line 60 is
  reached.
\<close>

theorem default_construction_configures_nothing:
  "fst (Overlay (board_world ''RFSoC2x2'') None True ()) = Inl (NameError ''clocks'')
   \<and> filter is_configure (trace (snd (Overlay (board_world ''RFSoC2x2'') None True ()))) = []"
  by (simp add: run_defs bitfile_board_world board_world_simps)

text \<open>
  Claim C7: the selection of tile indices, block indices and sample frequency is a
  function of the value of \<^verbatim>\<open>BOARD\<close> alone. Two constructions that read the same
  \<^verbatim>\<open>BOARD\<close> value, in whatever worlds and with whatever arguments, agree on each
  attribute that both have assigned and on every frequency that both have passed to
  \<^verbatim>\<open>configure_adcs\<close>.
\<close>

theorem selection_determined_by_BOARD:
  assumes "environ w1 ''BOARD'' = environ w2 ''BOARD''"
  shows "(dac_tile (snd (Overlay w1 bn1 clk1 kw1)) = None \<or> dac_tile (snd (Overlay w2 bn2 clk2 kw2)) = None
           \<or> dac_tile (snd (Overlay w1 bn1 clk1 kw1)) = dac_tile (snd (Overlay w2 bn2 clk2 kw2)))
       \<and> (dac_block (snd (Overlay w1 bn1 clk1 kw1)) = None \<or> dac_block (snd (Overlay w2 bn2 clk2 kw2)) = None
           \<or> dac_block (snd (Overlay w1 bn1 clk1 kw1)) = dac_block (snd (Overlay w2 bn2 clk2 kw2)))
       \<and> (adc_tile (snd (Overlay w1 bn1 clk1 kw1)) = None \<or> adc_tile (snd (Overlay w2 bn2 clk2 kw2)) = None
           \<or> adc_tile (snd (Overlay w1 bn1 clk1 kw1)) = adc_tile (snd (Overlay w2 bn2 clk2 kw2)))
       \<and> (adc_block (snd (Overlay w1 bn1 clk1 kw1)) = None \<or> adc_block (snd (Overlay w2 bn2 clk2 kw2)) = None
           \<or> adc_block (snd (Overlay w1 bn1 clk1 kw1)) = adc_block (snd (Overlay w2 bn2 clk2 kw2)))
       \<and> (\<forall>f1 f2. ConfigureAdcs f1 \<in> set (trace (snd (Overlay w1 bn1 clk1 kw1)))
                 \<and> ConfigureAdcs f2 \<in> set (trace (snd (Overlay w2 bn2 clk2 kw2))) \<longrightarrow> f1 = f2)"
proof (cases "environ w1 ''BOARD''")
  case None
  then show ?thesis using assms by (simp add: run_without_board fresh_def)
next
  case (Some board)
  with assms have e2: "environ w2 ''BOARD'' = Some board" by simp
  show ?thesis
  proof (cases "documented_indices board")
    case None
    with Some e2 show ?thesis by (simp add: run_unknown_board fresh_def)
  next
    case doc: (Some sel)
    obtain dti dbi ati abi where sel: "sel = (dti, dbi, ati, abi)" by (cases sel) auto
    note k1 = run_known_board [OF Some doc [unfolded sel], where bn = bn1 and clk = clk1 and kw = kw1]
      run_known_board_trace [OF Some doc [unfolded sel], where bn = bn1 and clk = clk1 and kw = kw1]
    note k2 = run_known_board [OF e2 doc [unfolded sel], where bn = bn2 and clk = clk2 and kw = kw2]
      run_known_board_trace [OF e2 doc [unfolded sel], where bn = bn2 and clk = clk2 and kw = kw2]
    from k1(1) k2(1) have a: "dac_tile (snd (Overlay w1 bn1 clk1 kw1)) = None \<or> dac_tile (snd (Overlay w2 bn2 clk2 kw2)) = None
           \<or> dac_tile (snd (Overlay w1 bn1 clk1 kw1)) = dac_tile (snd (Overlay w2 bn2 clk2 kw2))" by auto
    from k1(2) k2(2) have b: "dac_block (snd (Overlay w1 bn1 clk1 kw1)) = None \<or> dac_block (snd (Overlay w2 bn2 clk2 kw2)) = None
           \<or> dac_block (snd (Overlay w1 bn1 clk1 kw1)) = dac_block (snd (Overlay w2 bn2 clk2 kw2))" by auto
    from k1(3) k2(3) have c: "adc_tile (snd (Overlay w1 bn1 clk1 kw1)) = None \<or> adc_tile (snd (Overlay w2 bn2 clk2 kw2)) = None
           \<or> adc_tile (snd (Overlay w1 bn1 clk1 kw1)) = adc_tile (snd (Overlay w2 bn2 clk2 kw2))" by auto
    from k1(4) k2(4) have d: "adc_block (snd (Overlay w1 bn1 clk1 kw1)) = None \<or> adc_block (snd (Overlay w2 bn2 clk2 kw2)) = None
           \<or> adc_block (snd (Overlay w1 bn1 clk1 kw1)) = adc_block (snd (Overlay w2 bn2 clk2 kw2))" by auto
    from k1(5) k2(5) have e: "\<forall>f1 f2. ConfigureAdcs f1 \<in> set (trace (snd (Overlay w1 bn1 clk1 kw1)))
                 \<and> ConfigureAdcs f2 \<in> set (trace (snd (Overlay w2 bn2 clk2 kw2))) \<longrightarrow> f1 = f2" by auto
    from a b c d e show ?thesis by blast
  qed
qed

theorem selection_determined_by_BOARD_witness:
  "environ (board_world ''ZCU216'') ''BOARD'' = environ (source_tree_world ''ZCU216'') ''BOARD''
   \<and> dac_tile (snd (Overlay (board_world ''ZCU216'') None False ())) = Some 2
   \<and> dac_tile (snd (Overlay (source_tree_world ''ZCU216'') (Some ''/home/xilinx/custom.bit'') True ())) = Some 2
   \<and> adc_block (snd (Overlay (board_world ''ZCU216'') None False ())) = Some (1, 0)
   \<and> adc_block (snd (Overlay (source_tree_world ''ZCU216'') (Some ''/home/xilinx/custom.bit'') True ())) = Some (1, 0)
   \<and> ConfigureAdcs 1920 \<in> set (trace (snd (Overlay (board_world ''ZCU216'') None False ())))
   \<and> ConfigureAdcs 1920 \<in> set (trace (snd (Overlay (source_tree_world ''ZCU216'') None False ())))"
proof -
  have env: "environ (board_world ''ZCU216'') ''BOARD'' = environ (source_tree_world ''ZCU216'') ''BOARD''"
    by (simp add: board_world_simps source_tree_world_simps)
  have a: "Overlay (board_world ''ZCU216'') None False () =
     (Inr (),
      \<lparr>trace = [SuperInit (default_bitfile (board_world ''ZCU216'') None) (),
                 DacTile 2, DacBlock 2 0, AdcTile 1, AdcBlock 1 0, ConfigureAdcs 1920, ConfigureDacs],
        dac_tile = Some 2, dac_block = Some (2, 0), adc_tile = Some 1, adc_block = Some (1, 0)\<rparr>)"
    by (simp add: run_defs board_world_simps)
  have b: "snd (Overlay (source_tree_world ''ZCU216'') bn True ()) =
      \<lparr>trace = [SuperInit (default_bitfile (source_tree_world ''ZCU216'') bn) (),
                 DacTile 2, DacBlock 2 0, AdcTile 1, AdcBlock 1 0],
        dac_tile = Some 2, dac_block = Some (2, 0), adc_tile = Some 1, adc_block = Some (1, 0)\<rparr>" for bn
    by (simp add: run_defs source_tree_world_simps)
  have c: "Overlay (source_tree_world ''ZCU216'') None False () =
     (Inl (Raised ConfigureDacs),
      \<lparr>trace = [SuperInit (default_bitfile (source_tree_world ''ZCU216'') None) (),
                 DacTile 2, DacBlock 2 0, AdcTile 1, AdcBlock 1 0, ConfigureAdcs 1920, ConfigureDacs],
        dac_tile = Some 2, dac_block = Some (2, 0), adc_tile = Some 1, adc_block = Some (1, 0)\<rparr>)"
    by (simp add: run_defs source_tree_world_simps)
  from selection_determined_by_BOARD [OF env, where ?bn1.0 = None and ?clk1.0 = False and ?kw1.0 = "()"
                     and ?bn2.0 = "Some ''/home/xilinx/custom.bit''" and ?clk2.0 = True and ?kw2.0 = "()"]
       env
  show ?thesis by (simp add: a b c)
qed

text \<open>
  Claim C8: when \<^verbatim>\<open>BOARD\<close> is not set, construction fails with the missing-key error
  of the environment lookup, after the superclass constructor has loaded the bitstream
  and before any branch on the board, any lookup and any configuration call.
\<close>

theorem missing_BOARD_raises_KeyError:
  assumes "environ w ''BOARD'' = None"
      and "returns w (SuperInit (default_bitfile w bn) kw)"
  shows "Overlay w bn clk kw =
           (Inl (KeyError ''BOARD''), fresh\<lparr>trace := [SuperInit (default_bitfile w bn) kw]\<rparr>)"
  using assms by (simp add: run_defs)

theorem missing_BOARD_raises_KeyError_witness:
  "environ unset_world ''BOARD'' = None
   \<and> returns unset_world (SuperInit (default_bitfile unset_world None) ())
   \<and> Overlay unset_world None True () =
       (Inl (KeyError ''BOARD''),
        \<lparr>trace = [SuperInit ''/usr/local/share/pynq-venv/lib/python3.10/site-packages/rfsoc_nrssb/rfsoc_nrssb/bitstream/rfsoc_nrssb.bit'' ()],
          dac_tile = None, dac_block = None, adc_tile = None, adc_block = None\<rparr>)"
proof -
  have env: "environ unset_world ''BOARD'' = None"
    by (simp add: unset_world_simps)
  have r: "returns unset_world (SuperInit (default_bitfile unset_world None) ())"
    by (simp add: unset_world_simps)
  from missing_BOARD_raises_KeyError [OF env r, where clk = True] env r
  show ?thesis by (simp add: bitfile_unset_world fresh_def)
qed

text \<open>
  Claim C9: with \<^verbatim>\<open>init_rf_clks=False\<close> the clock initialisation is skipped, while the
  board lookup, \<^verbatim>\<open>configure_adcs\<close> and \<^verbatim>\<open>configure_dacs\<close> are performed exactly as
  for \<^verbatim>\<open>init_rf_clks=True\<close>. On ZCU216, with every outside call returning, the two
  runs differ in more than the clock initialisation: with \<open>False\<close> the construction
  completes after both configuration calls, with \<open>True\<close> it raises \<^verbatim>\<open>NameError\<close> and
  makes neither.
\<close>

theorem init_rf_clks_False_and_True_runs:
  "Overlay (board_world ''ZCU216'') None False () =
     (Inr (),
      \<lparr>trace = [SuperInit ''/usr/local/share/pynq-venv/lib/python3.10/site-packages/rfsoc_nrssb/rfsoc_nrssb/bitstream/rfsoc_nrssb.bit'' (),
                 DacTile 2, DacBlock 2 0, AdcTile 1, AdcBlock 1 0, ConfigureAdcs 1920, ConfigureDacs],
        dac_tile = Some 2, dac_block = Some (2, 0), adc_tile = Some 1, adc_block = Some (1, 0)\<rparr>)
   \<and> Overlay (board_world ''ZCU216'') None True () =
     (Inl (NameError ''clocks''),
      \<lparr>trace = [SuperInit ''/usr/local/share/pynq-venv/lib/python3.10/site-packages/rfsoc_nrssb/rfsoc_nrssb/bitstream/rfsoc_nrssb.bit'' (),
                 DacTile 2, DacBlock 2 0, AdcTile 1, AdcBlock 1 0],
        dac_tile = Some 2, dac_block = Some (2, 0), adc_tile = Some 1, adc_block = Some (1, 0)\<rparr>)"
  by (simp add: run_defs bitfile_board_world board_world_simps)

text \<open>
  Claim C10: with \<^verbatim>\<open>bitfile_name=None\<close> the path passed to the superclass constructor
  is \<^verbatim>\<open>rfsoc_nrssb/bitstream/rfsoc_nrssb.bit\<close> under the directory of the module file;
  a given \<^verbatim>\<open>bitfile_name\<close> is passed unchanged. The superclass constructor is the
  first outside call of every construction and is called once.
\<close>

theorem bitfile_path_passed_to_super:
  "filter is_super_init (trace (snd (Overlay w None clk kw))) =
     [SuperInit ((let this_dir = os_path_dirname (module_file w) in
                  if this_dir = [] \<or> last this_dir = CHR ''/'' then this_dir else this_dir @ ''/'')
                 @ ''rfsoc_nrssb/bitstream/rfsoc_nrssb.bit'') kw]
   \<and> take 1 (trace (snd (Overlay w None clk kw))) = filter is_super_init (trace (snd (Overlay w None clk kw)))
   \<and> filter is_super_init (trace (snd (Overlay w (Some b) clk kw))) = [SuperInit b kw]
   \<and> take 1 (trace (snd (Overlay w (Some b) clk kw))) = [SuperInit b kw]"
proof -
  have n: "default_bitfile w None =
     (let this_dir = os_path_dirname (module_file w) in
        if this_dir = [] \<or> last this_dir = CHR ''/'' then this_dir else this_dir @ ''/'')
       @ ''rfsoc_nrssb/bitstream/rfsoc_nrssb.bit''"
    by (simp add: default_bitfile_def join_default Let_def)
  have s: "default_bitfile w (Some b) = b"
    by (simp add: default_bitfile_def)
  obtain r1 where r1: "trace (snd (Overlay w None clk kw)) = SuperInit (default_bitfile w None) kw # r1"
     "filter is_super_init r1 = []"
    using trace_starts_with_super_init [of w None clk kw] by blast
  obtain r2 where r2: "trace (snd (Overlay w (Some b) clk kw)) = SuperInit (default_bitfile w (Some b)) kw # r2"
     "filter is_super_init r2 = []"
    using trace_starts_with_super_init [of w "Some b" clk kw] by blast
  show ?thesis unfolding r1(1) r2(1) n s using r1(2) r2(2) by simp
qed

theorem bitfile_path_passed_to_super_witness:
  "take 1 (trace (snd (Overlay (source_tree_world ''ZCU208'') None False ()))) =
     [SuperInit ''rfsoc_nrssb/rfsoc_nrssb/bitstream/rfsoc_nrssb.bit'' ()]
   \<and> take 1 (trace (snd (Overlay (source_tree_world ''ZCU208'') (Some ''/home/xilinx/custom.bit'') False ()))) =
     [SuperInit ''/home/xilinx/custom.bit'' ()]"
proof -
  have d: "os_path_dirname (module_file (source_tree_world ''ZCU208'')) = ''rfsoc_nrssb''"
    by (simp add: source_tree_world_def os_path_dirname_def)
  from bitfile_path_passed_to_super [where w = "source_tree_world ''ZCU208''" and clk = False and kw = "()"
               and b = "''/home/xilinx/custom.bit''"]
  show ?thesis by (simp add: d)
qed

end
